theory Spec2Isabelle
  imports Main
begin

section \<open>Python values and exceptions\<close>

text \<open>
  The health monitor of \<^verbatim>\<open>monitor.py\<close> (class \<^verbatim>\<open>ForecastMonitor\<close>) keeps a dictionary
  of per-location records, all of whose timestamps are ISO-8601 strings. The exceptions
  its operations can meet are values of \<open>error\<close>; a function that can raise returns
  \<open>error + 'a\<close>, with \<open>Inl\<close> for the exception.
\<close>

datatype error = ValueError | TypeError | AttributeError

datatype pyval = PyNone | PyStr string | PyInt int

text \<open>Truthiness of an optional string (\<^verbatim>\<open>if x:\<close>): \<^verbatim>\<open>None\<close> and \<^verbatim>\<open>""\<close> are false.\<close>

fun truthy :: "string option \<Rightarrow> bool" where
  "truthy None = False"
| "truthy (Some s) = (s \<noteq> [])"

section \<open>The datetime library\<close>

text \<open>
  A \<^verbatim>\<open>datetime\<close> object holds its calendar fields, as Python's does; \<open>tzinfo\<close> is
  the UTC offset in microseconds of an aware datetime and \<open>None\<close> for a naive one.
  \<^verbatim>\<open>datetime.utcnow()\<close> returns a naive datetime.
\<close>

record datetime =
  year :: int
  month :: int
  day :: int
  hour :: int
  minute :: int
  second :: int
  microsecond :: int
  tzinfo :: "int option"

definition is_leap :: "int \<Rightarrow> bool" where
  "is_leap y = (y mod 4 = 0 \<and> (0 < y mod 100 \<or> y mod 400 = 0))"

definition days_in_month :: "int \<Rightarrow> int \<Rightarrow> int" where
  "days_in_month y m =
     (if m = 2 then (if is_leap y then 29 else 28)
      else if m = 4 \<or> m = 6 \<or> m = 9 \<or> m = 11 then 30 else 31)"

definition days_before_year :: "int \<Rightarrow> int" where
  "days_before_year y = (y - 1) * 365 + (y - 1) div 4 - (y - 1) div 100 + (y - 1) div 400"

definition days_before_month :: "int \<Rightarrow> int \<Rightarrow> int" where
  "days_before_month y m =
     [0, 31, 59, 90, 120, 151, 181, 212, 243, 273, 304, 334] ! nat (m - 1)
     + (if 2 < m \<and> is_leap y then 1 else 0)"

definition toordinal :: "datetime \<Rightarrow> int" where
  "toordinal d = days_before_year (year d) + days_before_month (year d) (month d) + day d"

text \<open>
  The wall-clock reading of a datetime, in microseconds since the midnight before
  0001-01-01.
\<close>

definition to_micros :: "datetime \<Rightarrow> int" where
  "to_micros d =
     (((toordinal d * 24 + hour d) * 60 + minute d) * 60 + second d) * 1000000
     + microsecond d"

text \<open>What the constructor \<^verbatim>\<open>datetime(...)\<close> accepts; anything else is a ValueError.\<close>

definition valid_datetime :: "datetime \<Rightarrow> bool" where
  "valid_datetime d =
     (1 \<le> year d \<and> year d \<le> 9999 \<and> 1 \<le> month d \<and> month d \<le> 12 \<and>
      1 \<le> day d \<and> day d \<le> days_in_month (year d) (month d) \<and>
      0 \<le> hour d \<and> hour d < 24 \<and> 0 \<le> minute d \<and> minute d < 60 \<and>
      0 \<le> second d \<and> second d < 60 \<and> 0 \<le> microsecond d \<and> microsecond d < 1000000 \<and>
      (case tzinfo d of None \<Rightarrow> True | Some off \<Rightarrow> \<bar>off\<bar> < 86400000000))"


text \<open>
  \<^verbatim>\<open>a - b\<close> on datetimes is a \<^verbatim>\<open>timedelta\<close>, here its length in microseconds. Python
  refuses to subtract a naive and an aware datetime with a TypeError.
\<close>

definition sub_datetime :: "datetime \<Rightarrow> datetime \<Rightarrow> error + int" where
  "sub_datetime a b =
     (case (tzinfo a, tzinfo b) of
        (None, None) \<Rightarrow> Inr (to_micros a - to_micros b)
      | (Some oa, Some ob) \<Rightarrow> Inr ((to_micros a - oa) - (to_micros b - ob))
      | _ \<Rightarrow> Inl TypeError)"

text \<open>
  \<^verbatim>\<open>int(td.total_seconds() / k)\<close>: the quotient truncated toward zero, for a timedelta of
  \<open>us\<close> microseconds and a divisor of \<open>unit\<close> microseconds. The quotient is a float in
  Python and is computed exactly here.
\<close>

definition int_quotient :: "int \<Rightarrow> int \<Rightarrow> int" where
  "int_quotient us unit = (if 0 \<le> us then us div unit else - ((- us) div unit))"

subsection \<open>Printing and parsing decimal fields\<close>

definition digit_char :: "int \<Rightarrow> char" where
  "digit_char d = ''0123456789'' ! nat (d mod 10)"

definition digit_val :: "char \<Rightarrow> int option" where
  "digit_val c = map_of (zip ''0123456789'' [0, 1, 2, 3, 4, 5, 6, 7, 8, 9]) c"

text \<open>\<^verbatim>\<open>"%0kd" % n\<close> for \<open>0 \<le> n < 10 ^ k\<close>.\<close>

fun pad :: "nat \<Rightarrow> int \<Rightarrow> string" where
  "pad 0 n = []"
| "pad (Suc k) n = pad k (n div 10) @ [digit_char n]"

text \<open>A run of decimal digits, read as a number; \<open>None\<close> when a character is no digit.\<close>

fun parse_digits_acc :: "int \<Rightarrow> string \<Rightarrow> int option" where
  "parse_digits_acc a [] = Some a"
| "parse_digits_acc a (c # cs) =
     (case digit_val c of None \<Rightarrow> None | Some v \<Rightarrow> parse_digits_acc (10 * a + v) cs)"

definition parse_digits :: "string \<Rightarrow> int option" where
  "parse_digits s = (if s = [] then None else parse_digits_acc 0 s)"

text \<open>\<^verbatim>\<open>str(n)\<close> for an integer.\<close>

fun str_nat :: "nat \<Rightarrow> string" where
  "str_nat n =
     (if n < 10 then [digit_char (int n)] else str_nat (n div 10) @ [digit_char (int n)])"

definition str_int :: "int \<Rightarrow> string" where
  "str_int i = (if i < 0 then CHR ''-'' # str_nat (nat (- i)) else str_nat (nat i))"

subsection \<open>isoformat and fromisoformat\<close>

text \<open>
  \<^verbatim>\<open>datetime.isoformat()\<close> of a naive datetime: \<^verbatim>\<open>YYYY-MM-DDTHH:MM:SS\<close>, followed by
  \<^verbatim>\<open>.ffffff\<close> when the microsecond is not zero. The monitor only formats readings of
  \<^verbatim>\<open>utcnow()\<close>.
\<close>

definition isoformat :: "datetime \<Rightarrow> string" where
  "isoformat d =
     pad 4 (year d) @ ''-'' @ pad 2 (month d) @ ''-'' @ pad 2 (day d) @ ''T'' @
     pad 2 (hour d) @ '':'' @ pad 2 (minute d) @ '':'' @ pad 2 (second d) @
     (if microsecond d = 0 then [] else ''.'' @ pad 6 (microsecond d))"

text \<open>
  \<^verbatim>\<open>datetime.fromisoformat\<close> follows the grammar the library documents for Python 3.7
  to 3.10, \<^verbatim>\<open>YYYY-MM-DD[*HH[:MM[:SS[.fff[fff]]]][+HH:MM[:SS[.ffffff]]]]\<close>, where \<^verbatim>\<open>*\<close> is
  any single character; every other string, and every string whose fields the
  constructor refuses, is a ValueError. Later versions of the library read the strings
  of this grammar in the same way and accept further ones.
\<close>

definition parse_date :: "string \<Rightarrow> (int \<times> int \<times> int) option" where
  "parse_date s =
     (if length s = 10 \<and> s ! 4 = CHR ''-'' \<and> s ! 7 = CHR ''-'' then
        (case (parse_digits (take 4 s), parse_digits (take 2 (drop 5 s)),
               parse_digits (drop 8 s)) of
           (Some y, Some m, Some d) \<Rightarrow> Some (y, m, d)
         | _ \<Rightarrow> None)
      else None)"

text \<open>\<^verbatim>\<open>HH[:MM[:SS[.fff[fff]]]]\<close> as hour, minute, second, microsecond.\<close>

definition parse_hms :: "string \<Rightarrow> (int \<times> int \<times> int \<times> int) option" where
  "parse_hms s =
     (let n = length s in
      if n = 2 then
        (case parse_digits s of Some h \<Rightarrow> Some (h, 0, 0, 0) | None \<Rightarrow> None)
      else if n = 5 \<and> s ! 2 = CHR '':'' then
        (case (parse_digits (take 2 s), parse_digits (drop 3 s)) of
           (Some h, Some mi) \<Rightarrow> Some (h, mi, 0, 0)
         | _ \<Rightarrow> None)
      else if (n = 8 \<or> n = 12 \<or> n = 15) \<and> s ! 2 = CHR '':'' \<and> s ! 5 = CHR '':'' then
        (case (parse_digits (take 2 s), parse_digits (take 2 (drop 3 s)),
               parse_digits (take 2 (drop 6 s))) of
           (Some h, Some mi, Some sec) \<Rightarrow>
             (if n = 8 then Some (h, mi, sec, 0)
              else if s ! 8 = CHR ''.'' then
                (case parse_digits (drop 9 s) of
                   Some f \<Rightarrow> Some (h, mi, sec, if n = 12 then f * 1000 else f)
                 | None \<Rightarrow> None)
              else None)
         | _ \<Rightarrow> None)
      else None)"

text \<open>\<^verbatim>\<open>HH:MM[:SS[.ffffff]]\<close> after the sign of a UTC offset, in microseconds.\<close>

definition parse_tz :: "string \<Rightarrow> int option" where
  "parse_tz s =
     (let n = length s in
      if n = 5 \<or> n = 8 \<or> n = 15 then
        (case parse_hms s of
           Some (h, mi, sec, f) \<Rightarrow> Some (((h * 60 + mi) * 60 + sec) * 1000000 + f)
         | None \<Rightarrow> None)
      else None)"

definition is_sign :: "char \<Rightarrow> bool" where
  "is_sign c = (c = CHR ''+'' \<or> c = CHR ''-'')"

definition make_datetime ::
  "int \<times> int \<times> int \<Rightarrow> int \<times> int \<times> int \<times> int \<Rightarrow> int option \<Rightarrow> error + datetime" where
  "make_datetime ymd hmsf tz =
     (case ymd of (y, m, d) \<Rightarrow> case hmsf of (h, mi, sec, f) \<Rightarrow>
        (let dt = \<lparr>year = y, month = m, day = d, hour = h, minute = mi, second = sec,
                   microsecond = f, tzinfo = tz\<rparr>
         in if valid_datetime dt then Inr dt else Inl ValueError))"

definition fromisoformat :: "string \<Rightarrow> error + datetime" where
  "fromisoformat s =
     (case parse_date (take 10 s) of
        None \<Rightarrow> Inl ValueError
      | Some ymd \<Rightarrow>
          if length s = 10 then make_datetime ymd (0, 0, 0, 0) None
          else
            (let tstr = drop 11 s;
                 tpart = takeWhile (\<lambda>c. \<not> is_sign c) tstr;
                 tzpart = dropWhile (\<lambda>c. \<not> is_sign c) tstr
             in case parse_hms tpart of
                  None \<Rightarrow> Inl ValueError
                | Some hmsf \<Rightarrow>
                    (case tzpart of
                       [] \<Rightarrow> make_datetime ymd hmsf None
                     | sg # tzstr \<Rightarrow>
                         (case parse_tz tzstr of
                            None \<Rightarrow> Inl ValueError
                          | Some off \<Rightarrow>
                              make_datetime ymd hmsf
                                (Some (if sg = CHR ''-'' then - off else off))))))"

text \<open>\<^verbatim>\<open>s.replace('Z', '+00:00')\<close>: every \<^verbatim>\<open>Z\<close> of the string is replaced.\<close>

definition replace_Z :: "string \<Rightarrow> string" where
  "replace_Z s = concat (map (\<lambda>c. if c = CHR ''Z'' then ''+00:00'' else [c]) s)"

section \<open>The health store\<close>

text \<open>
  One entry of \<^verbatim>\<open>outage_history\<close>; \<open>start_time\<close> and \<open>end_time\<close> are its keys
  \<^verbatim>\<open>"start"\<close> and \<^verbatim>\<open>"end"\<close>.
\<close>

record outage_event =
  start_time :: string
  end_time :: string
  duration_minutes :: int

text \<open>
  The dictionary kept per location. The keys \<^verbatim>\<open>last_attempt\<close>, \<^verbatim>\<open>last_error\<close> and
  \<^verbatim>\<open>last_stale_warning\<close> are absent from a new record: for \<^verbatim>\<open>last_attempt\<close> and
  \<^verbatim>\<open>last_stale_warning\<close> the value \<open>None\<close> is the absent key, and \<^verbatim>\<open>last_error\<close>,
  which can hold \<^verbatim>\<open>None\<close> itself, has an outer \<open>None\<close> for it. The timestamps are
  whatever strings the store holds, well formed or not.
\<close>

record location_record =
  first_seen :: string
  total_attempts :: int
  successful_attempts :: int
  failed_attempts :: int
  last_attempt :: "string option"
  last_success :: "string option"
  last_failure :: "string option"
  last_error :: "string option option"
  current_outage_start :: "string option"
  outage_history :: "outage_event list"
  last_forecast_time :: "string option"
  stale_forecast_count :: int
  last_stale_warning :: "string option"

text \<open>
  The dictionary \<^verbatim>\<open>health_data\<close>. Its \<^verbatim>\<open>locations\<close> are a map: the operations modelled
  here look locations up by key and never depend on the order of insertion.
\<close>

record health_store =
  locations :: "string \<rightharpoonup> location_record"
  last_updated :: "string option"

text \<open>
  The file \<^verbatim>\<open>MONITOR_FILE\<close>: missing, present but not readable as JSON, or holding the
  JSON document of a store. \<^verbatim>\<open>json.dump\<close> followed by \<^verbatim>\<open>json.load\<close> gives back a document
  of strings, integers, \<^verbatim>\<open>null\<close>, lists and string-keyed objects as it was, so the file
  is modelled by the document it holds.
\<close>

datatype stored_file = Missing | Unreadable | Document health_store

text \<open>
  What happens to one write: it succeeds, \<^verbatim>\<open>open\<close> raises and the file is untouched, or
  \<^verbatim>\<open>json.dump\<close> raises after \<^verbatim>\<open>open\<close> has truncated the file.
\<close>

datatype write_outcome = Written | OpenFailed | DumpFailed

record monitor =
  health_data :: health_store
  monitor_file :: stored_file

definition empty_store :: health_store where
  "empty_store = \<lparr>locations = Map.empty, last_updated = None\<rparr>"

definition load_health_data :: "stored_file \<Rightarrow> health_store" where
  "load_health_data f =
     (case f of
        Document d \<Rightarrow> d
      | Unreadable \<Rightarrow> empty_store
      | Missing \<Rightarrow> empty_store)"

definition save_health_data :: "write_outcome \<Rightarrow> health_store \<Rightarrow> stored_file \<Rightarrow> stored_file" where
  "save_health_data w d f =
     (case w of
        Written \<Rightarrow> Document d
      | OpenFailed \<Rightarrow> f
      | DumpFailed \<Rightarrow> Unreadable)"

text \<open>\<^verbatim>\<open>ForecastMonitor()\<close> on a machine whose monitor file is \<open>f\<close>.\<close>

definition init :: "stored_file \<Rightarrow> monitor" where
  "init f = \<lparr>health_data = load_health_data f, monitor_file = f\<rparr>"

section \<open>Recording an attempt\<close>

definition new_record :: "string \<Rightarrow> location_record" where
  "new_record now =
     \<lparr>first_seen = now, total_attempts = 0, successful_attempts = 0, failed_attempts = 0,
      last_attempt = None, last_success = None, last_failure = None, last_error = None,
      current_outage_start = None, outage_history = [], last_forecast_time = None,
      stale_forecast_count = 0, last_stale_warning = None\<rparr>"

text \<open>
  \<^verbatim>\<open>_calculate_duration\<close>: the minutes between two ISO timestamps, and 0 when either
  does not parse or the subtraction raises.
\<close>

definition calculate_duration :: "string \<Rightarrow> string \<Rightarrow> int" where
  "calculate_duration start_iso end_iso =
     (case fromisoformat start_iso of
        Inl e \<Rightarrow> 0
      | Inr start \<Rightarrow>
          (case fromisoformat end_iso of
             Inl e \<Rightarrow> 0
           | Inr end_dt \<Rightarrow>
               (case sub_datetime end_dt start of
                  Inl e \<Rightarrow> 0
                | Inr td \<Rightarrow> int_quotient td 60000000)))"

text \<open>
  The \<^verbatim>\<open>try\<close> block of the staleness check: whether the forecast is older than 12 hours
  at the second clock reading, or the exception that the \<^verbatim>\<open>except\<close> clause swallows.
  \<^verbatim>\<open>age_hours > 12\<close> compares a float; it holds exactly when the timedelta is longer than
  12 hours.
\<close>

definition forecast_is_stale :: "datetime \<Rightarrow> string \<Rightarrow> error + bool" where
  "forecast_is_stale now_dt forecast_time =
     (case fromisoformat (replace_Z forecast_time) of
        Inl e \<Rightarrow> Inl e
      | Inr forecast_dt \<Rightarrow>
          (case sub_datetime now_dt forecast_dt of
             Inl e \<Rightarrow> Inl e
           | Inr age \<Rightarrow> Inr (12 * 3600000000 < age)))"

text \<open>
  \<^verbatim>\<open>record_attempt\<close>. The method reads the clock twice: \<open>utcnow1\<close> is the reading whose
  ISO form is \<^verbatim>\<open>now\<close>, \<open>utcnow2\<close> the reading \<^verbatim>\<open>now_dt\<close> inside the staleness check;
  \<open>w\<close> is what happens to the write that ends the call.
\<close>

definition record_attempt ::
  "datetime \<Rightarrow> datetime \<Rightarrow> write_outcome \<Rightarrow> string \<Rightarrow> string \<Rightarrow> bool \<Rightarrow>
   string option \<Rightarrow> string option \<Rightarrow> monitor \<Rightarrow> monitor" where
  "record_attempt utcnow1 utcnow2 w location forecast_type success forecast_time
     error_message m =
     (let now = isoformat utcnow1;
          loc0 = (case locations (health_data m) location of
                    None \<Rightarrow> new_record now
                  | Some r \<Rightarrow> r);
          loc1 = loc0\<lparr>total_attempts := total_attempts loc0 + 1, last_attempt := Some now\<rparr>;
          loc2 =
            (if success then
               (let loc3 = loc1\<lparr>successful_attempts := successful_attempts loc1 + 1,
                                last_success := Some now\<rparr>;
                    loc4 =
                      (if truthy forecast_time then
                         (let loc5 = loc3\<lparr>last_forecast_time := forecast_time\<rparr>
                          in case forecast_is_stale utcnow2 (the forecast_time) of
                               Inr True \<Rightarrow>
                                 loc5\<lparr>stale_forecast_count := stale_forecast_count loc5 + 1,
                                      last_stale_warning := Some now\<rparr>
                             | Inr False \<Rightarrow> loc5
                             | Inl e \<Rightarrow> loc5)
                       else loc3)
                in if truthy (current_outage_start loc4) then
                     loc4\<lparr>outage_history := outage_history loc4 @
                            [\<lparr>start_time = the (current_outage_start loc4), end_time = now,
                              duration_minutes =
                                calculate_duration (the (current_outage_start loc4)) now\<rparr>],
                          current_outage_start := None\<rparr>
                   else loc4)
             else
               (let loc3 = loc1\<lparr>failed_attempts := failed_attempts loc1 + 1,
                                last_failure := Some now,
                                last_error := Some error_message\<rparr>
                in if \<not> truthy (current_outage_start loc3) then
                     loc3\<lparr>current_outage_start := Some now\<rparr>
                   else loc3));
          d = (health_data m)\<lparr>locations := (locations (health_data m))(location \<mapsto> loc2),
                               last_updated := Some now\<rparr>
      in \<lparr>health_data = d, monitor_file = save_health_data w d (monitor_file m)\<rparr>)"

text \<open>One call with the clock readings and the write outcome it meets, and a run of calls.\<close>

record attempt =
  clock1 :: datetime
  clock2 :: datetime
  write_result :: write_outcome
  location :: string
  forecast_type :: string
  success :: bool
  forecast_time :: "string option"
  error_message :: "string option"

definition run_attempt :: "attempt \<Rightarrow> monitor \<Rightarrow> monitor" where
  "run_attempt c m =
     record_attempt (clock1 c) (clock2 c) (write_result c) (location c) (forecast_type c)
       (success c) (forecast_time c) (error_message c) m"

fun run_attempts :: "attempt list \<Rightarrow> monitor \<Rightarrow> monitor" where
  "run_attempts [] m = m"
| "run_attempts (c # cs) m = run_attempts cs (run_attempt c m)"

section \<open>Status and freshness\<close>

text \<open>
  \<^verbatim>\<open>get_location_status\<close> at the clock reading \<open>utcnow\<close>. The result is the dictionary
  the method returns; the parse of \<^verbatim>\<open>last_success\<close> and the subtraction after it stand
  outside any \<^verbatim>\<open>try\<close>, so their exceptions leave the method.
\<close>

definition get_location_status ::
  "datetime \<Rightarrow> monitor \<Rightarrow> string \<Rightarrow> error + (string \<times> pyval) list" where
  "get_location_status utcnow m loc_id =
     (case locations (health_data m) loc_id of
        None \<Rightarrow>
          Inr [(''status'', PyStr ''unknown''),
               (''message'', PyStr ''No forecast attempts recorded'')]
      | Some loc \<Rightarrow>
          if truthy (current_outage_start loc) then
            Inr [(''status'', PyStr ''offline''),
                 (''message'', PyStr (''API offline for '' @
                    str_int (calculate_duration (the (current_outage_start loc))
                               (isoformat utcnow)) @ '' minutes'')),
                 (''outage_start'', PyStr (the (current_outage_start loc))),
                 (''last_error'',
                    (case last_error loc of
                       None \<Rightarrow> PyStr ''Unknown error''
                     | Some None \<Rightarrow> PyNone
                     | Some (Some e) \<Rightarrow> PyStr e))]
          else if truthy (last_success loc) then
            (case fromisoformat (the (last_success loc)) of
               Inl e \<Rightarrow> Inl e
             | Inr last_success_dt \<Rightarrow>
                 (case sub_datetime utcnow last_success_dt of
                    Inl e \<Rightarrow> Inl e
                  | Inr time_since \<Rightarrow>
                      if time_since < 2 * 3600000000 then
                        (if 0 < stale_forecast_count loc then
                           Inr [(''status'', PyStr ''warning''),
                                (''message'', PyStr
                                   (''API online but serving stale forecasts ('' @
                                    str_int (stale_forecast_count loc) @ '' times)'')),
                                (''last_success'', PyStr (the (last_success loc)))]
                         else
                           Inr [(''status'', PyStr ''online''),
                                (''message'', PyStr ''API operating normally''),
                                (''last_success'', PyStr (the (last_success loc))),
                                (''last_forecast_time'',
                                   (case last_forecast_time loc of
                                      None \<Rightarrow> PyNone
                                    | Some t \<Rightarrow> PyStr t))])
                      else
                        Inr [(''status'', PyStr ''stale''),
                             (''message'', PyStr (''No fresh data for '' @
                                str_int (int_quotient time_since 3600000000) @ '' hours'')),
                             (''last_success'', PyStr (the (last_success loc)))]))
          else
            Inr [(''status'', PyStr ''unknown''),
                 (''message'', PyStr ''No successful fetches yet'')])"



text \<open>
  \<^verbatim>\<open>check_data_freshness\<close> on a forecast dictionary. A value of \<^verbatim>\<open>updated\<close> that is no
  string has no \<^verbatim>\<open>replace\<close> method; that AttributeError, like every other exception of
  the body, is answered with \<^verbatim>\<open>True\<close>.
\<close>

definition check_data_freshness :: "datetime \<Rightarrow> (string \<rightharpoonup> pyval) \<Rightarrow> bool" where
  "check_data_freshness utcnow forecast_data =
     (case forecast_data ''updated'' of
        None \<Rightarrow> True
      | Some (PyStr u) \<Rightarrow>
          (case fromisoformat (replace_Z u) of
             Inl e \<Rightarrow> True
           | Inr updated_time \<Rightarrow>
               (case sub_datetime utcnow updated_time of
                  Inl e \<Rightarrow> True
                | Inr age \<Rightarrow> age \<le> 12 * 3600000000))
      | Some PyNone \<Rightarrow> True
      | Some (PyInt i) \<Rightarrow> True)"

section \<open>Concrete runs\<close>

text \<open>A naive datetime with no microseconds, as \<^verbatim>\<open>utcnow()\<close> returns on a whole second.\<close>

definition utc :: "int \<Rightarrow> int \<Rightarrow> int \<Rightarrow> int \<Rightarrow> int \<Rightarrow> int \<Rightarrow> datetime" where
  "utc y mo d h mi s =
     \<lparr>year = y, month = mo, day = d, hour = h, minute = mi, second = s, microsecond = 0,
      tzinfo = None\<rparr>"



text \<open>
  A first, successful attempt for 99660 on 2024-01-02 at midnight, whose forecast carries
  the timestamp \<^verbatim>\<open>2024-01-01T00:00:00Z\<close>, 24 hours old.
\<close>

definition z_forecast_monitor :: monitor where
  "z_forecast_monitor =
     record_attempt (utc 2024 1 2 0 0 0) (utc 2024 1 2 0 0 0) Written ''99660'' ''local'' True
       (Some ''2024-01-01T00:00:00Z'') None (init Missing)"

text \<open>
  The scenario of the specification for location A: a success at 00:00:00 whose forecast
  is of that moment, a failure with the error \<^verbatim>\<open>timeout\<close> at 00:10:00, and a success
  at 00:40:00.
\<close>

definition scenario :: "attempt list" where
  "scenario =
     [\<lparr>clock1 = utc 2024 1 1 0 0 0, clock2 = utc 2024 1 1 0 0 0, write_result = Written,
       location = ''A'', forecast_type = ''local'', success = True,
       forecast_time = Some ''2024-01-01T00:00:00'', error_message = None\<rparr>,
      \<lparr>clock1 = utc 2024 1 1 0 10 0, clock2 = utc 2024 1 1 0 10 0, write_result = Written,
       location = ''A'', forecast_type = ''local'', success = False,
       forecast_time = None, error_message = Some ''timeout''\<rparr>,
      \<lparr>clock1 = utc 2024 1 1 0 40 0, clock2 = utc 2024 1 1 0 40 0, write_result = Written,
       location = ''A'', forecast_type = ''local'', success = True,
       forecast_time = Some ''2024-01-01T00:40:00'', error_message = None\<rparr>]"


text \<open>
  The monitor after the first call of the scenario, and after one more success at
  00:05:00 whose forecast timestamp is the string \<^verbatim>\<open>garbage\<close>.
\<close>

definition garbage_forecast_before :: monitor where
  "garbage_forecast_before = run_attempts (take 1 scenario) (init Missing)"

definition garbage_forecast_after :: monitor where
  "garbage_forecast_after =
     record_attempt (utc 2024 1 1 0 5 0) (utc 2024 1 1 0 5 0) Written ''A'' ''local'' True
       (Some ''garbage'') None garbage_forecast_before"


text \<open>
  A monitor file holding one record for location A, with one successful attempt and no
  open outage, whose \<^verbatim>\<open>last_success\<close> is the string \<open>ls\<close>.
\<close>

definition stored_record :: "string \<Rightarrow> location_record" where
  "stored_record ls =
     (new_record ''2024-01-01T00:00:00'')
       \<lparr>total_attempts := 1, successful_attempts := 1,
        last_attempt := Some ''2024-01-01T00:00:00'', last_success := Some ls\<rparr>"

definition stored_document :: "string \<Rightarrow> stored_file" where
  "stored_document ls =
     Document \<lparr>locations = Map.empty(''A'' \<mapsto> stored_record ls),
               last_updated = Some ''2024-01-01T00:00:00''\<rparr>"

section \<open>Decimal fields and the ISO round trip\<close>














lemma isoformat_truthy: "truthy (Some (isoformat d))"
  by (simp add: isoformat_def)

section \<open>One call of record_attempt\<close>

lemma record_attempt_other:
  "k \<noteq> l \<Longrightarrow>
   locations (health_data (record_attempt t1 t2 w l fty s ft e m)) k =
   locations (health_data m) k"
  by (simp add: record_attempt_def Let_def)

lemma record_attempt_present:
  "\<exists>r. locations (health_data (record_attempt t1 t2 w l fty s ft e m)) l = Some r"
  by (simp add: record_attempt_def Let_def)

lemma record_attempt_counters:
  assumes "locations (health_data (record_attempt t1 t2 w l fty s ft e m)) l = Some r'"
    and "r = (case locations (health_data m) l of
                None \<Rightarrow> new_record (isoformat t1) | Some x \<Rightarrow> x)"
  shows "total_attempts r' = total_attempts r + 1"
    and "successful_attempts r' = successful_attempts r + (if s then 1 else 0)"
    and "failed_attempts r' = failed_attempts r + (if s then 0 else 1)"
  using assms
  by (auto simp: record_attempt_def Let_def split: option.splits sum.splits bool.splits)

lemma record_attempt_outage:
  assumes "locations (health_data (record_attempt t1 t2 w l fty s ft e m)) l = Some r'"
    and "r = (case locations (health_data m) l of
                None \<Rightarrow> new_record (isoformat t1) | Some x \<Rightarrow> x)"
  shows "current_outage_start r' =
           (if s then (if truthy (current_outage_start r) then None else current_outage_start r)
            else (if truthy (current_outage_start r) then current_outage_start r
                  else Some (isoformat t1)))"
  using assms
  by (auto simp: record_attempt_def Let_def split: option.splits sum.splits bool.splits)

lemma run_attempts_append:
  "run_attempts (cs @ ds) m = run_attempts ds (run_attempts cs m)"
  by (induction cs arbitrary: m) simp_all





section \<open>The counters\<close>

lemma run_attempt_counters:
  assumes inv: "\<forall>k r. locations (health_data m) k = Some r \<longrightarrow>
            total_attempts r = successful_attempts r + failed_attempts r \<and>
            0 \<le> successful_attempts r \<and> 0 \<le> failed_attempts r"
    and r': "locations (health_data (run_attempt c m)) k = Some r'"
  shows "total_attempts r' = successful_attempts r' + failed_attempts r' \<and>
         0 \<le> successful_attempts r' \<and> 0 \<le> failed_attempts r'"
proof (cases "k = location c")
  case False
  then have "locations (health_data (run_attempt c m)) k = locations (health_data m) k"
    by (simp add: run_attempt_def record_attempt_other)
  with inv r' show ?thesis by simp
next
  case True
  define r where "r = (case locations (health_data m) k of
                         None \<Rightarrow> new_record (isoformat (clock1 c)) | Some x \<Rightarrow> x)"
  have ok: "total_attempts r = successful_attempts r + failed_attempts r \<and>
            0 \<le> successful_attempts r \<and> 0 \<le> failed_attempts r"
    using inv by (auto simp: r_def new_record_def split: option.splits)
  from r' True have at: "locations (health_data (record_attempt (clock1 c) (clock2 c)
      (write_result c) k (forecast_type c) (success c) (forecast_time c) (error_message c) m)) k
      = Some r'"
    by (simp add: run_attempt_def)
  note cs = record_attempt_counters [OF at r_def]
  show ?thesis using ok cs by (simp split: if_splits)
qed

lemma run_attempts_counters:
  assumes "\<forall>k r. locations (health_data m) k = Some r \<longrightarrow>
            total_attempts r = successful_attempts r + failed_attempts r \<and>
            0 \<le> successful_attempts r \<and> 0 \<le> failed_attempts r"
  shows "\<forall>k r. locations (health_data (run_attempts cs m)) k = Some r \<longrightarrow>
            total_attempts r = successful_attempts r + failed_attempts r \<and>
            0 \<le> successful_attempts r \<and> 0 \<le> failed_attempts r"
  using assms
proof (induction cs arbitrary: m)
  case Nil
  then show ?case by simp
next
  case (Cons c cs)
  have "\<forall>k r. locations (health_data (run_attempt c m)) k = Some r \<longrightarrow>
            total_attempts r = successful_attempts r + failed_attempts r \<and>
            0 \<le> successful_attempts r \<and> 0 \<le> failed_attempts r"
    using run_attempt_counters [OF Cons.prems] by blast
  from Cons.IH [OF this] show ?case by simp
qed

text \<open>
  C5. Start from a monitor whose records have counters that add up and are not negative
  (the fresh monitor has no record at all). After every prefix of every sequence of
  \<^verbatim>\<open>record_attempt\<close> calls, each record has
  \<^verbatim>\<open>total_attempts == successful_attempts + failed_attempts\<close>, and none of the three
  counters is negative.
\<close>

theorem counters_add_up:
  assumes "\<forall>k r. locations (health_data m) k = Some r \<longrightarrow>
            total_attempts r = successful_attempts r + failed_attempts r \<and>
            0 \<le> successful_attempts r \<and> 0 \<le> failed_attempts r"
    and "locations (health_data (run_attempts (take n cs) m)) l = Some r"
  shows "total_attempts r = successful_attempts r + failed_attempts r \<and>
         0 \<le> total_attempts r \<and> 0 \<le> successful_attempts r \<and> 0 \<le> failed_attempts r"
  using run_attempts_counters [OF assms(1), of "take n cs"] assms(2) by auto

theorem counters_add_up_witness:
  "\<exists>r. locations (health_data (run_attempts (take 2 scenario) (init Missing))) ''A'' = Some r \<and>
       total_attempts r = successful_attempts r + failed_attempts r \<and>
       0 \<le> total_attempts r \<and> 0 \<le> successful_attempts r \<and> 0 \<le> failed_attempts r"
proof -
  have fresh: "\<forall>k r. locations (health_data (init Missing)) k = Some r \<longrightarrow>
            total_attempts r = successful_attempts r + failed_attempts r \<and>
            0 \<le> successful_attempts r \<and> 0 \<le> failed_attempts r"
    by (simp add: init_def load_health_data_def empty_store_def)
  have "\<exists>r. locations (health_data (run_attempts (take 2 scenario) (init Missing))) ''A''
              = Some r"
    by (simp add: scenario_def run_attempt_def record_attempt_present)
  then obtain r where r:
    "locations (health_data (run_attempts (take 2 scenario) (init Missing))) ''A'' = Some r" ..
  from counters_add_up [OF fresh r] r show ?thesis by blast
qed

section \<open>Staleness of a forecast\<close>

text \<open>
  A forecast time that parses to a naive datetime is counted as stale exactly when it is
  more than 12 hours before the second clock reading; one that parses to an aware
  datetime never is.
\<close>

lemma naive_forecast_counted:
  assumes "ft \<noteq> []" and "fromisoformat (replace_Z ft) = Inr d" and "tzinfo d = None"
    and "tzinfo t2 = None"
  shows "map_option stale_forecast_count
           (locations (health_data (record_attempt t1 t2 w l fty True (Some ft) e m)) l) =
         Some ((case locations (health_data m) l of
                  None \<Rightarrow> 0 | Some r \<Rightarrow> stale_forecast_count r) +
               (if 12 * 3600000000 < to_micros t2 - to_micros d then 1 else 0))"
  using assms
  by (simp add: record_attempt_def Let_def new_record_def forecast_is_stale_def
        sub_datetime_def split: option.splits)

lemma aware_forecast_never_counted:
  assumes "fromisoformat (replace_Z ft) = Inr d" and "tzinfo d = Some off"
    and "tzinfo t2 = None"
  shows "map_option stale_forecast_count
           (locations (health_data (record_attempt t1 t2 w l fty True (Some ft) e m)) l) =
         Some (case locations (health_data m) l of
                 None \<Rightarrow> 0 | Some r \<Rightarrow> stale_forecast_count r)"
  using assms
  by (simp add: record_attempt_def Let_def new_record_def forecast_is_stale_def
        sub_datetime_def split: option.splits)

text \<open>
  C2. A successful attempt on 2024-01-02 at 00:00:00 carries the forecast timestamp
  \<^verbatim>\<open>2024-01-01T00:00:00Z\<close>. The timestamp parses, to an aware datetime 24 hours before
  the clock reading; subtracting it from the naive reading of \<^verbatim>\<open>utcnow()\<close> raises a
  TypeError, which the \<^verbatim>\<open>except\<close> clause swallows: \<^verbatim>\<open>stale_forecast_count\<close> stays 0 and
  \<^verbatim>\<open>last_stale_warning\<close> is not set.
\<close>

theorem z_forecast_not_counted:
  "fromisoformat (replace_Z ''2024-01-01T00:00:00Z'') =
     Inr ((utc 2024 1 1 0 0 0)\<lparr>tzinfo := Some 0\<rparr>)
   \<and> forecast_is_stale (utc 2024 1 2 0 0 0) ''2024-01-01T00:00:00Z'' = Inl TypeError
   \<and> map_option stale_forecast_count (locations (health_data z_forecast_monitor) ''99660'')
       = Some 0
   \<and> map_option last_stale_warning (locations (health_data z_forecast_monitor) ''99660'')
       = Some None"
  by code_simp

text \<open>
  C7. At the clock reading 2024-01-02 00:00:00, a payload whose \<^verbatim>\<open>updated\<close> field is
  \<^verbatim>\<open>2024-01-01T00:00:00Z\<close>, present, parseable and 24 hours old, is reported fresh:
  the subtraction of the aware timestamp from the naive reading raises, and the
  \<^verbatim>\<open>except\<close> clause answers \<^verbatim>\<open>True\<close>.
\<close>

theorem z_payload_reported_fresh:
  "check_data_freshness (utc 2024 1 2 0 0 0)
     (Map.empty(''updated'' \<mapsto> PyStr ''2024-01-01T00:00:00Z'')) = True"
  by code_simp

section \<open>Outages\<close>





lemma outage_invariant:
  assumes "locations (health_data m) = Map.empty"
  shows "(locations (health_data (run_attempts cs m)) l = None \<longrightarrow>
            filter (\<lambda>c. location c = l) cs = []) \<and>
         (\<forall>r. locations (health_data (run_attempts cs m)) l = Some r \<longrightarrow>
            filter (\<lambda>c. location c = l) cs \<noteq> [] \<and>
            (current_outage_start r = None) = success (last (filter (\<lambda>c. location c = l) cs)) \<and>
            current_outage_start r \<noteq> Some [])"
proof (induction cs rule: rev_induct)
  case Nil
  then show ?case using assms by simp
next
  case (snoc c cs)
  define m' where "m' = run_attempts cs m"
  have step: "run_attempts (cs @ [c]) m = run_attempt c m'"
    by (simp add: run_attempts_append m'_def)
  show ?case
  proof (cases "l = location c")
    case False
    then have "locations (health_data (run_attempt c m')) l = locations (health_data m') l"
      by (simp add: run_attempt_def record_attempt_other)
    with snoc False show ?thesis by (simp add: step m'_def)
  next
    case True
    define r where "r = (case locations (health_data m') l of
                           None \<Rightarrow> new_record (isoformat (clock1 c)) | Some x \<Rightarrow> x)"
    have prior: "current_outage_start r \<noteq> Some []"
      using snoc by (auto simp: r_def m'_def new_record_def split: option.splits)
    obtain r' where r': "locations (health_data (record_attempt (clock1 c) (clock2 c)
        (write_result c) l (forecast_type c) (success c) (forecast_time c) (error_message c) m')) l
        = Some r'"
      using record_attempt_present by blast
    have cos: "current_outage_start r' =
           (if success c
            then (if truthy (current_outage_start r) then None else current_outage_start r)
            else (if truthy (current_outage_start r) then current_outage_start r
                  else Some (isoformat (clock1 c))))"
      by (rule record_attempt_outage [OF r' r_def])
    have iso: "isoformat (clock1 c) \<noteq> []" using isoformat_truthy [of "clock1 c"] by simp
    have "(current_outage_start r' = None) = success c \<and> current_outage_start r' \<noteq> Some []"
      using cos prior iso by (cases "current_outage_start r") (auto split: if_splits)
    moreover have "locations (health_data (run_attempts (cs @ [c]) m)) l = Some r'"
      using r' True by (simp add: step run_attempt_def)
    ultimately show ?thesis using True by simp
  qed
qed

text \<open>
  C6. Start from a monitor with no records. After any sequence of \<^verbatim>\<open>record_attempt\<close>
  calls, a location has a record exactly when a call was made for it, and
  \<^verbatim>\<open>current_outage_start\<close> of that record is \<^verbatim>\<open>None\<close> exactly when the most recent call
  for the location was a success (so it is set exactly when that call failed).
\<close>

theorem outage_open_iff_last_attempt_failed:
  assumes "locations (health_data m) = Map.empty"
  shows "(locations (health_data (run_attempts cs m)) l = None) =
           (filter (\<lambda>c. location c = l) cs = []) \<and>
         (\<forall>r. locations (health_data (run_attempts cs m)) l = Some r \<longrightarrow>
            (current_outage_start r = None) =
              success (last (filter (\<lambda>c. location c = l) cs)))"
  using outage_invariant [OF assms, of cs l]
  by (cases "locations (health_data (run_attempts cs m)) l") auto

theorem outage_open_iff_last_attempt_failed_witness:
  "\<exists>r. locations (health_data (run_attempts (take 2 scenario) (init Missing))) ''A'' = Some r \<and>
       current_outage_start r \<noteq> None"
proof -
  have fresh: "locations (health_data (init Missing)) = Map.empty"
    by (simp add: init_def load_health_data_def empty_store_def)
  have "\<exists>r. locations (health_data (run_attempts (take 2 scenario) (init Missing))) ''A''
              = Some r"
    by (simp add: scenario_def run_attempt_def record_attempt_present)
  then obtain r where r:
    "locations (health_data (run_attempts (take 2 scenario) (init Missing))) ''A'' = Some r" ..
  have "\<not> success (last (filter (\<lambda>c. location c = ''A'') (take 2 scenario)))"
    by (simp add: scenario_def)
  with outage_open_iff_last_attempt_failed [OF fresh, of "take 2 scenario" "''A''"] r
  show ?thesis by auto
qed

section \<open>The forecast time of a success\<close>

text \<open>
  C9, as the claim states it, fails for a forecast time that does not parse: a success
  that carries the string \<^verbatim>\<open>garbage\<close> replaces the \<^verbatim>\<open>last_forecast_time\<close> of the
  record, \<^verbatim>\<open>2024-01-01T00:00:00\<close>, by \<^verbatim>\<open>garbage\<close>.
\<close>

theorem garbage_forecast_time_stored:
  "fromisoformat (replace_Z ''garbage'') = Inl ValueError \<and>
   map_option last_forecast_time (locations (health_data garbage_forecast_before) ''A'')
     = Some (Some ''2024-01-01T00:00:00'') \<and>
   map_option last_forecast_time (locations (health_data garbage_forecast_after) ''A'')
     = Some (Some ''garbage'')"
  by code_simp

text \<open>
  C9, amended. On a successful \<^verbatim>\<open>record_attempt\<close>, \<^verbatim>\<open>last_forecast_time\<close> becomes the
  supplied \<^verbatim>\<open>forecast_time\<close> exactly when that is a non-empty string, whether or not it
  parses as a timestamp; when it is absent or empty, \<^verbatim>\<open>last_forecast_time\<close> keeps its
  value (\<^verbatim>\<open>None\<close> in a record the call creates).
\<close>

theorem last_forecast_time_stored:
  "map_option last_forecast_time
     (locations (health_data (record_attempt t1 t2 w l fty True ft e m)) l) =
   Some (if truthy ft then ft
         else (case locations (health_data m) l of
                 None \<Rightarrow> None | Some r \<Rightarrow> last_forecast_time r))"
  by (simp add: record_attempt_def Let_def new_record_def
           split: option.splits sum.splits bool.splits)

section \<open>The location argument\<close>



section \<open>Saving and loading\<close>

text \<open>
  A missing or unreadable file loads as the empty store, and a write that fails leaves
  the monitor with the store it holds in memory.
\<close>

lemma load_failure_gives_empty_store:
  "load_health_data Missing = empty_store \<and> load_health_data Unreadable = empty_store"
  by (simp add: load_health_data_def)

lemma failed_write_keeps_memory:
  "health_data (record_attempt t1 t2 w l fty s ft e m) =
   health_data (record_attempt t1 t2 Written l fty s ft e m)"
  by (simp add: record_attempt_def Let_def)



section \<open>The status of a location\<close>

text \<open>
  C3. A monitor file holds a record for location A whose \<^verbatim>\<open>last_success\<close> is the string
  \<^verbatim>\<open>yesterday\<close> and whose \<^verbatim>\<open>current_outage_start\<close> is \<^verbatim>\<open>None\<close>. A monitor constructed
  from that file raises a ValueError in \<^verbatim>\<open>get_location_status\<close>: the call of
  \<^verbatim>\<open>fromisoformat\<close> on \<^verbatim>\<open>last_success\<close> stands outside any \<^verbatim>\<open>try\<close>.
\<close>

theorem malformed_last_success_raises:
  "get_location_status (utc 2024 1 1 1 0 0) (init (stored_document ''yesterday'')) ''A''
     = Inl ValueError"
  by code_simp




end
